theory Spec2Isabelle
  imports Complex_Main
begin

section \<open>Step catalog (src/lib/tour-definitions.ts)\<close>

datatype TourPosition =
  Top | Bottom | Left | Right | Center | Top_start | Top_end | Bottom_start | Bottom_end

datatype TourStepType = Spotlight | Modal

text \<open>
  The interface \<open>TourStep\<close>. The optional fields \<open>targetId?\<close> and \<open>highlight?\<close> are
  options; \<open>id\<close> and \<open>type\<close> are written \<open>step_id\<close> and \<open>step_type\<close>.
\<close>

record TourStep =
  step_id :: string
  step_type :: TourStepType
  targetId :: "string option"
  title :: string
  description :: string
  position :: TourPosition
  highlight :: "bool option"

definition meetingTourSteps :: "TourStep list" where
  "meetingTourSteps =
    [ \<lparr> step_id = ''welcome'', step_type = Modal, targetId = None,
        title = ''Welcome to AI Meeting Assistant'',
        description = ''Let me show you around the interface. This tour takes about 30 seconds.'',
        position = Center, highlight = None \<rparr>,
      \<lparr> step_id = ''breathing-orb'', step_type = Spotlight, targetId = Some ''breathing-orb'',
        title = ''The Breathing Orb'',
        description = ''This orb visualizes the assistant's state. Blue means idle, green means listening, purple means speaking.'',
        position = Bottom, highlight = Some True \<rparr>,
      \<lparr> step_id = ''status-bar'', step_type = Spotlight, targetId = Some ''status-bar'',
        title = ''Service Status'',
        description = ''Monitor your connected services here: Whisper for speech recognition, wake word detection, and Piper for text-to-speech.'',
        position = Bottom, highlight = None \<rparr>,
      \<lparr> step_id = ''meeting-controls'', step_type = Spotlight,
        targetId = Some ''meeting-controls'',
        title = ''Meeting Controls'',
        description = ''Mute your mic, manually start recording, or toggle speaker output.'',
        position = Top, highlight = None \<rparr>,
      \<lparr> step_id = ''record-button'', step_type = Spotlight, targetId = Some ''record-button'',
        title = ''Voice Recording'',
        description = ''Press to manually record. Or just say your wake word - the assistant is always listening when unmuted.'',
        position = Top, highlight = None \<rparr>,
      \<lparr> step_id = ''insights-sidebar'', step_type = Spotlight,
        targetId = Some ''insights-sidebar'',
        title = ''Insights Feed'',
        description = ''All conversations and AI responses appear here. Scroll through your meeting history.'',
        position = Left, highlight = None \<rparr>,
      \<lparr> step_id = ''settings-button'', step_type = Spotlight,
        targetId = Some ''settings-button'',
        title = ''Quick Settings'',
        description = ''Change your wake word and other preferences here.'',
        position = Bottom_end, highlight = None \<rparr> ]"


section \<open>Tour storage (tour-storage, second part of src/lib/tour-definitions.ts)\<close>

definition TOUR_COMPLETED_KEY :: string where
  "TOUR_COMPLETED_KEY = ''tour:meeting:completed''"

definition TOUR_VERSION_KEY :: string where
  "TOUR_VERSION_KEY = ''tour:version''"

definition CURRENT_TOUR_VERSION :: string where
  "CURRENT_TOUR_VERSION = ''1.0.0''"

text \<open>
  The JavaScript environment the storage functions run in.
  \<^item> \<open>has_window\<close>: \<open>typeof window !== 'undefined'\<close> (false during server-side rendering);
  \<^item> \<open>get_throws k\<close>, \<open>set_throws k\<close>, \<open>remove_throws k\<close>: the call
    \<open>localStorage.getItem(k)\<close>, \<open>setItem(k, _)\<close>, \<open>removeItem(k)\<close> raises (storage
    disabled, access denied, quota exceeded);
  \<^item> \<open>items\<close>: the contents of \<open>localStorage\<close>; an absent key reads as \<open>null\<close>, here
    \<open>None\<close>;
  \<^item> \<open>console\<close>: the lines written by \<open>console.error\<close>, oldest first.
\<close>

record Browser =
  has_window :: bool
  get_throws :: "string \<Rightarrow> bool"
  set_throws :: "string \<Rightarrow> bool"
  remove_throws :: "string \<Rightarrow> bool"
  items :: "string \<rightharpoonup> string"
  console :: "string list"

datatype js_error = DOMException

definition getItem :: "Browser \<Rightarrow> string \<Rightarrow> js_error + string option" where
  "getItem b k = (if get_throws b k then Inl DOMException else Inr (items b k))"

definition setItem :: "Browser \<Rightarrow> string \<Rightarrow> string \<Rightarrow> js_error + Browser" where
  "setItem b k v =
     (if set_throws b k then Inl DOMException else Inr (b\<lparr>items := (items b)(k \<mapsto> v)\<rparr>))"

definition removeItem :: "Browser \<Rightarrow> string \<Rightarrow> js_error + Browser" where
  "removeItem b k =
     (if remove_throws b k then Inl DOMException else Inr (b\<lparr>items := (items b)(k := None)\<rparr>))"

definition console_error :: "string \<Rightarrow> Browser \<Rightarrow> Browser" where
  "console_error msg b = b\<lparr>console := console b @ [msg]\<rparr>"

definition isTourCompleted :: "Browser \<Rightarrow> bool" where
  "isTourCompleted b =
     (if \<not> has_window b then True
      else case getItem b TOUR_COMPLETED_KEY of
             Inr v \<Rightarrow> v = Some ''true''
           | Inl _ \<Rightarrow> False)"

definition getTourVersion :: "Browser \<Rightarrow> string option" where
  "getTourVersion b =
     (if \<not> has_window b then None
      else case getItem b TOUR_VERSION_KEY of
             Inr v \<Rightarrow> v
           | Inl _ \<Rightarrow> None)"

text \<open>
  \<open>markTourCompleted\<close> and \<open>shouldShowTour\<close> read the module constant
  \<open>CURRENT_TOUR_VERSION\<close>, which the source changes from one release to the next
  ("increment to re-show tour for all users"). The functions \<open>markTourCompleted_at\<close> and
  \<open>shouldShowTour_at\<close> are their bodies with the value of that constant as the argument
  \<open>cv\<close>; the functions of the source are the instances at \<open>CURRENT_TOUR_VERSION\<close>.
\<close>

definition markTourCompleted_at :: "string \<Rightarrow> Browser \<Rightarrow> Browser" where
  "markTourCompleted_at cv b =
     (if \<not> has_window b then b
      else case setItem b TOUR_COMPLETED_KEY ''true'' of
             Inl _ \<Rightarrow> console_error ''Failed to save tour completion state'' b
           | Inr b1 \<Rightarrow>
               (case setItem b1 TOUR_VERSION_KEY cv of
                  Inl _ \<Rightarrow> console_error ''Failed to save tour completion state'' b1
                | Inr b2 \<Rightarrow> b2))"

definition markTourCompleted :: "Browser \<Rightarrow> Browser" where
  "markTourCompleted = markTourCompleted_at CURRENT_TOUR_VERSION"

definition resetTour :: "Browser \<Rightarrow> Browser" where
  "resetTour b =
     (if \<not> has_window b then b
      else case removeItem b TOUR_COMPLETED_KEY of
             Inl _ \<Rightarrow> console_error ''Failed to reset tour state'' b
           | Inr b1 \<Rightarrow>
               (case removeItem b1 TOUR_VERSION_KEY of
                  Inl _ \<Rightarrow> console_error ''Failed to reset tour state'' b1
                | Inr b2 \<Rightarrow> b2))"

definition shouldShowTour_at :: "string \<Rightarrow> Browser \<Rightarrow> bool" where
  "shouldShowTour_at cv b =
     (if \<not> has_window b then False
      else if \<not> isTourCompleted b then True
      else if getTourVersion b \<noteq> Some cv then True
      else False)"

definition shouldShowTour :: "Browser \<Rightarrow> bool" where
  "shouldShowTour = shouldShowTour_at CURRENT_TOUR_VERSION"


section \<open>The tour state machine (src/hooks/use-tour.ts)\<close>

text \<open>
  \<open>UseTourOptions\<close>. The three callbacks are optional in the source and are called as
  \<open>onStart?.()\<close>; each is a flag here that says whether the host passed one. What a
  callback does is the host's business: a call is recorded in \<open>calls\<close>.
\<close>

record UseTourOptions =
  tourId :: string
  steps :: "TourStep list"
  autoStart :: bool
  onStart :: bool
  onComplete :: bool
  onSkip :: bool

datatype callback = OnStart | OnComplete | OnSkip

text \<open>
  The two \<open>useState\<close> cells of the hook, with the browser the hook writes to and the
  callbacks called so far (oldest first). \<open>currentStep\<close> and the argument of \<open>goToStep\<close>
  are JavaScript numbers: real numbers here, so that a value such as 0.5 is not excluded
  (NaN and the infinities are left out; \<open>goToStep\<close> ignores them). \<open>totalSteps\<close> is the
  length of an array.
\<close>

record TourRun =
  isActive :: bool
  currentStep :: real
  browser :: Browser
  calls :: "callback list"

definition call :: "bool \<Rightarrow> callback \<Rightarrow> TourRun \<Rightarrow> TourRun" where
  "call given cb w = (if given then w\<lparr>calls := calls w @ [cb]\<rparr> else w)"

definition useTour_initial :: "Browser \<Rightarrow> TourRun" where
  "useTour_initial b = \<lparr>isActive = False, currentStep = 0, browser = b, calls = []\<rparr>"

definition totalSteps :: "UseTourOptions \<Rightarrow> real" where
  "totalSteps opts = real (length (steps opts))"

text \<open>
  \<open>steps[currentStep] ?? null\<close>: an index that is not an integer of the array's range
  reads \<open>undefined\<close>, which becomes \<open>null\<close>.
\<close>

definition currentStepData :: "UseTourOptions \<Rightarrow> TourRun \<Rightarrow> TourStep option" where
  "currentStepData opts w =
     (if isActive w then
        (if of_int \<lfloor>currentStep w\<rfloor> = currentStep w \<and>
            0 \<le> currentStep w \<and> currentStep w < totalSteps opts
         then Some (steps opts ! nat \<lfloor>currentStep w\<rfloor>) else None)
      else None)"

definition startTour :: "UseTourOptions \<Rightarrow> TourRun \<Rightarrow> TourRun" where
  "startTour opts w = call (onStart opts) OnStart (w\<lparr>currentStep := 0, isActive := True\<rparr>)"

definition completeTour :: "UseTourOptions \<Rightarrow> TourRun \<Rightarrow> TourRun" where
  "completeTour opts w =
     call (onComplete opts) OnComplete
       (w\<lparr>isActive := False, currentStep := 0, browser := markTourCompleted (browser w)\<rparr>)"

definition skipTour :: "UseTourOptions \<Rightarrow> TourRun \<Rightarrow> TourRun" where
  "skipTour opts w =
     call (onSkip opts) OnSkip
       (w\<lparr>isActive := False, currentStep := 0, browser := markTourCompleted (browser w)\<rparr>)"

text \<open>
  \<open>nextStep\<close> and \<open>prevStep\<close> are closures that React makes anew for every render
  (\<open>useCallback\<close> with \<open>currentStep\<close> among the dependencies). Their tests read the
  \<open>currentStep\<close> of the render that made them, here \<open>rendered\<close>; their updates are
  \<open>setCurrentStep((prev) => prev + 1)\<close> and \<open>prev - 1\<close>, which act on the state as it is
  when the call is made, here \<open>w\<close>. The two differ when a handler is called after
  another call of the same render, or is kept from an older render.
\<close>

definition nextStep_of_render :: "UseTourOptions \<Rightarrow> real \<Rightarrow> TourRun \<Rightarrow> TourRun" where
  "nextStep_of_render opts rendered w =
     (if rendered \<ge> totalSteps opts - 1 then completeTour opts w
      else w\<lparr>currentStep := currentStep w + 1\<rparr>)"

definition prevStep_of_render :: "UseTourOptions \<Rightarrow> real \<Rightarrow> TourRun \<Rightarrow> TourRun" where
  "prevStep_of_render opts rendered w =
     (if rendered > 0 then w\<lparr>currentStep := currentStep w - 1\<rparr> else w)"

text \<open>
  A call of the handler of the render that shows the state \<open>w\<close>: the first call an
  event makes after React has rendered.
\<close>

definition nextStep :: "UseTourOptions \<Rightarrow> TourRun \<Rightarrow> TourRun" where
  "nextStep opts w = nextStep_of_render opts (currentStep w) w"

definition prevStep :: "UseTourOptions \<Rightarrow> TourRun \<Rightarrow> TourRun" where
  "prevStep opts w = prevStep_of_render opts (currentStep w) w"

text \<open>\<open>goToStep\<close> closes over \<open>totalSteps\<close> only.\<close>

definition goToStep :: "UseTourOptions \<Rightarrow> real \<Rightarrow> TourRun \<Rightarrow> TourRun" where
  "goToStep opts step w =
     (if step \<ge> 0 \<and> step < totalSteps opts then w\<lparr>currentStep := step\<rparr> else w)"


text \<open>
  A host drives the hook by calls of the five functions it returns. The calls that one
  event makes all use the handlers of the same render, the one that shows the state the
  event starts from (\<open>tourCalls_of_render\<close>); React renders again between two events
  (\<open>tourEvents\<close>). \<open>tourCalls_rendered\<close> is the host that makes one call per event, as
  the buttons and keys of the tour do.
\<close>

datatype TourCall = StartTour | NextStep | PrevStep | SkipTour | GoToStep real

fun tourCall_of_render :: "UseTourOptions \<Rightarrow> real \<Rightarrow> TourCall \<Rightarrow> TourRun \<Rightarrow> TourRun" where
  "tourCall_of_render opts rendered StartTour w = startTour opts w"
| "tourCall_of_render opts rendered NextStep w = nextStep_of_render opts rendered w"
| "tourCall_of_render opts rendered PrevStep w = prevStep_of_render opts rendered w"
| "tourCall_of_render opts rendered SkipTour w = skipTour opts w"
| "tourCall_of_render opts rendered (GoToStep k) w = goToStep opts k w"

fun tourCalls_of_render ::
    "UseTourOptions \<Rightarrow> real \<Rightarrow> TourCall list \<Rightarrow> TourRun \<Rightarrow> TourRun" where
  "tourCalls_of_render opts rendered [] w = w"
| "tourCalls_of_render opts rendered (c # cs) w =
     tourCalls_of_render opts rendered cs (tourCall_of_render opts rendered c w)"

fun tourEvents :: "UseTourOptions \<Rightarrow> TourCall list list \<Rightarrow> TourRun \<Rightarrow> TourRun" where
  "tourEvents opts [] w = w"
| "tourEvents opts (e # es) w =
     tourEvents opts es (tourCalls_of_render opts (currentStep w) e w)"

definition tourCalls_rendered :: "UseTourOptions \<Rightarrow> TourCall list \<Rightarrow> TourRun \<Rightarrow> TourRun" where
  "tourCalls_rendered opts cs w = tourEvents opts (map (\<lambda>c. [c]) cs) w"




section \<open>Geometry (components/tour/tour-spotlight.tsx, tour-tooltip.tsx)\<close>

text \<open>
  Coordinates are JavaScript numbers; they are real numbers here, so rounding is left out.
  \<open>Window\<close> holds what the code reads from \<open>window\<close>, \<open>DOMRect\<close> the six properties it
  reads from the result of \<open>getBoundingClientRect()\<close>.
\<close>

record Window =
  innerWidth :: real
  innerHeight :: real

record DOMRect =
  rect_top :: real
  rect_bottom :: real
  rect_left :: real
  rect_right :: real
  rect_width :: real
  rect_height :: real

subsection \<open>Spotlight cutout\<close>

text \<open>
  The commands of the SVG path string that \<open>calculateSpotlightPath\<close> builds with its
  template literal: \<open>M x y\<close>, \<open>L x y\<close>, \<open>Q cx cy x y\<close> and \<open>Z\<close>.
\<close>

datatype PathCmd = SvgM real real | SvgL real real | SvgQ real real real real | SvgZ

definition calculateSpotlightPath :: "Window \<Rightarrow> DOMRect \<Rightarrow> real \<Rightarrow> real \<Rightarrow> PathCmd list" where
  "calculateSpotlightPath win rect padding borderRadius =
     (let w = innerWidth win;
          h = innerHeight win;
          left = rect_left rect - padding;
          top = rect_top rect - padding;
          right = rect_right rect + padding;
          bottom = rect_bottom rect + padding;
          r = min borderRadius (min ((right - left) / 2) ((bottom - top) / 2))
      in [SvgM 0 0, SvgL w 0, SvgL w h, SvgL 0 h, SvgZ,
          SvgM (left + r) top,
          SvgL (right - r) top,
          SvgQ right top right (top + r),
          SvgL right (bottom - r),
          SvgQ right bottom (right - r) bottom,
          SvgL (left + r) bottom,
          SvgQ left bottom left (bottom - r),
          SvgL left (top + r),
          SvgQ left top (left + r) top,
          SvgZ])"

text \<open>
  The specification's cutout, in its own words: the target box expanded by the padding
  on all sides, with the corner radius clamped to at most half the expanded box's width
  and half its height.
\<close>

record RoundedRect =
  rr_left :: real
  rr_top :: real
  rr_right :: real
  rr_bottom :: real
  rr_radius :: real

definition spec_cutout :: "DOMRect \<Rightarrow> real \<Rightarrow> real \<Rightarrow> RoundedRect" where
  "spec_cutout box padding cornerRadius =
     (let l = rect_left box - padding;
          t = rect_top box - padding;
          r = rect_right box + padding;
          b = rect_bottom box + padding;
          expandedWidth = r - l;
          expandedHeight = b - t
      in \<lparr>rr_left = l, rr_top = t, rr_right = r, rr_bottom = b,
          rr_radius = min cornerRadius (min (expandedWidth / 2) (expandedHeight / 2))\<rparr>)"

text \<open>
  The outline of a rounded rectangle as a closed sub-path: four straight edges that stop
  one radius before each corner, joined by quadratic curves whose control points are the
  corners. The outer sub-path is the rectangle of the viewport.
\<close>

definition spec_roundedRectPath :: "RoundedRect \<Rightarrow> PathCmd list" where
  "spec_roundedRectPath c =
     [SvgM (rr_left c + rr_radius c) (rr_top c),
      SvgL (rr_right c - rr_radius c) (rr_top c),
      SvgQ (rr_right c) (rr_top c) (rr_right c) (rr_top c + rr_radius c),
      SvgL (rr_right c) (rr_bottom c - rr_radius c),
      SvgQ (rr_right c) (rr_bottom c) (rr_right c - rr_radius c) (rr_bottom c),
      SvgL (rr_left c + rr_radius c) (rr_bottom c),
      SvgQ (rr_left c) (rr_bottom c) (rr_left c) (rr_bottom c - rr_radius c),
      SvgL (rr_left c) (rr_top c + rr_radius c),
      SvgQ (rr_left c) (rr_top c) (rr_left c + rr_radius c) (rr_top c),
      SvgZ]"

definition spec_viewportPath :: "Window \<Rightarrow> PathCmd list" where
  "spec_viewportPath win =
     [SvgM 0 0, SvgL (innerWidth win) 0, SvgL (innerWidth win) (innerHeight win),
      SvgL 0 (innerHeight win), SvgZ]"

text \<open>
  Reading a path back: the points a command names (for \<open>Q\<close> the control point and the end
  point), and the smallest and largest coordinates among the points of a path, as
  (left, top, right, bottom).
\<close>

fun cmdPoints :: "PathCmd \<Rightarrow> (real \<times> real) list" where
  "cmdPoints (SvgM x y) = [(x, y)]"
| "cmdPoints (SvgL x y) = [(x, y)]"
| "cmdPoints (SvgQ cx cy x y) = [(cx, cy), (x, y)]"
| "cmdPoints SvgZ = []"

definition pathPoints :: "PathCmd list \<Rightarrow> (real \<times> real) list" where
  "pathPoints cmds = concat (map cmdPoints cmds)"

definition pathBounds :: "PathCmd list \<Rightarrow> real \<times> real \<times> real \<times> real" where
  "pathBounds cmds =
     (let xs = map fst (pathPoints cmds); ys = map snd (pathPoints cmds)
      in (Min (set xs), Min (set ys), Max (set xs), Max (set ys)))"

subsection \<open>Tooltip position\<close>

definition GAP :: real where
  "GAP = 16"

definition TOOLTIP_WIDTH :: real where
  "TOOLTIP_WIDTH = 320"

record TooltipSize =
  size_width :: real
  size_height :: real

record TooltipPosition =
  pos_top :: real
  pos_left :: real

text \<open>
  The size \<open>TourTooltip\<close> starts from, before the tooltip has been measured:
  \<open>useRef<TooltipSize>({ width: TOOLTIP_WIDTH, height: 200 })\<close>.
\<close>

definition tooltipSize_initial :: TooltipSize where
  "tooltipSize_initial = \<lparr>size_width = TOOLTIP_WIDTH, size_height = 200\<rparr>"

text \<open>
  The \<open>switch\<close> of \<open>getTooltipPosition\<close>: the values of \<open>tooltipTop\<close> and \<open>tooltipLeft\<close>
  before they are clamped. The function returns before the \<open>switch\<close> when the position is
  \<open>center\<close>; the branch for \<open>Center\<close> is the \<open>default:\<close> of the source.
\<close>

definition unclampedPosition :: "DOMRect \<Rightarrow> TourPosition \<Rightarrow> TooltipSize \<Rightarrow> TooltipPosition" where
  "unclampedPosition rect placement tooltipSize =
     (let centerX = rect_left rect + rect_width rect / 2;
          centerY = rect_top rect + rect_height rect / 2
      in case placement of
           Bottom \<Rightarrow>
             \<lparr>pos_top = rect_bottom rect + GAP,
              pos_left = centerX - size_width tooltipSize / 2\<rparr>
         | Bottom_start \<Rightarrow>
             \<lparr>pos_top = rect_bottom rect + GAP,
              pos_left = rect_left rect\<rparr>
         | Bottom_end \<Rightarrow>
             \<lparr>pos_top = rect_bottom rect + GAP,
              pos_left = rect_right rect - size_width tooltipSize\<rparr>
         | Top \<Rightarrow>
             \<lparr>pos_top = rect_top rect - size_height tooltipSize - GAP,
              pos_left = centerX - size_width tooltipSize / 2\<rparr>
         | Top_start \<Rightarrow>
             \<lparr>pos_top = rect_top rect - size_height tooltipSize - GAP,
              pos_left = rect_left rect\<rparr>
         | Top_end \<Rightarrow>
             \<lparr>pos_top = rect_top rect - size_height tooltipSize - GAP,
              pos_left = rect_right rect - size_width tooltipSize\<rparr>
         | Left \<Rightarrow>
             \<lparr>pos_top = centerY - size_height tooltipSize / 2,
              pos_left = rect_left rect - size_width tooltipSize - GAP\<rparr>
         | Right \<Rightarrow>
             \<lparr>pos_top = centerY - size_height tooltipSize / 2,
              pos_left = rect_right rect + GAP\<rparr>
         | Center \<Rightarrow>
             \<lparr>pos_top = rect_bottom rect + GAP,
              pos_left = centerX - size_width tooltipSize / 2\<rparr>)"

definition getTooltipPosition ::
    "Window \<Rightarrow> DOMRect option \<Rightarrow> TourPosition \<Rightarrow> TooltipSize \<Rightarrow> TooltipPosition" where
  "getTooltipPosition win targetRect placement tooltipSize =
     (case (if placement = Center then None else targetRect) of
        None \<Rightarrow>
          \<lparr>pos_top = (innerHeight win - size_height tooltipSize) / 2,
           pos_left = (innerWidth win - size_width tooltipSize) / 2\<rparr>
      | Some rect \<Rightarrow>
          (let c = unclampedPosition rect placement tooltipSize;
               padding = 16
           in \<lparr>pos_top =
                 max padding (min (pos_top c) (innerHeight win - size_height tooltipSize - padding)),
               pos_left =
                 max padding (min (pos_left c) (innerWidth win - size_width tooltipSize - padding))\<rparr>))"

text \<open>
  The tooltip's rectangle, placed at \<open>p\<close>, lies in the viewport minus an inset of 16
  units on all four sides.
\<close>

definition insideInset :: "Window \<Rightarrow> TooltipSize \<Rightarrow> TooltipPosition \<Rightarrow> bool" where
  "insideInset win tooltipSize p =
     (16 \<le> pos_left p \<and> pos_left p + size_width tooltipSize \<le> innerWidth win - 16 \<and>
      16 \<le> pos_top p \<and> pos_top p + size_height tooltipSize \<le> innerHeight win - 16)"


section \<open>Example inputs\<close>

text \<open>
  A browser whose storage works and is empty; the same with a full or disabled storage
  (every \<open>setItem\<close> raises); the server, where \<open>window\<close> is undefined; a browser that
  holds the record of a tour completed at version \<open>v\<close>; and that browser with every
  \<open>getItem\<close> raising.
\<close>

definition example_browser :: Browser where
  "example_browser =
     \<lparr>has_window = True, get_throws = (\<lambda>k. False), set_throws = (\<lambda>k. False),
      remove_throws = (\<lambda>k. False), items = Map.empty, console = []\<rparr>"

definition example_browser_full :: Browser where
  "example_browser_full = example_browser\<lparr>set_throws := (\<lambda>k. True)\<rparr>"

definition example_server :: Browser where
  "example_server = example_browser\<lparr>has_window := False\<rparr>"

definition example_record :: "string \<Rightarrow> Browser" where
  "example_record v =
     example_browser\<lparr>items := [TOUR_COMPLETED_KEY \<mapsto> ''true'', TOUR_VERSION_KEY \<mapsto> v]\<rparr>"

definition example_browser_denied :: Browser where
  "example_browser_denied =
     (example_record ''1.0.0'')\<lparr>get_throws := (\<lambda>k. True)\<rparr>"

text \<open>
  A browser in which only the write of the version raises.
\<close>

definition example_browser_half :: Browser where
  "example_browser_half = example_browser\<lparr>set_throws := (\<lambda>k. k = TOUR_VERSION_KEY)\<rparr>"

text \<open>
  Options with all three callbacks passed, options with none, and an active tour at
  step \<open>i\<close>.
\<close>

definition example_options :: "TourStep list \<Rightarrow> UseTourOptions" where
  "example_options catalog =
     \<lparr>tourId = ''meeting'', steps = catalog, autoStart = False,
      onStart = True, onComplete = True, onSkip = True\<rparr>"

definition example_options_bare :: "TourStep list \<Rightarrow> UseTourOptions" where
  "example_options_bare catalog =
     \<lparr>tourId = ''meeting'', steps = catalog, autoStart = False,
      onStart = False, onComplete = False, onSkip = False\<rparr>"

definition example_active :: "real \<Rightarrow> TourRun" where
  "example_active i = \<lparr>isActive = True, currentStep = i, browser = example_browser, calls = []\<rparr>"

text \<open>
  A desktop viewport and a phone viewport; a target box well inside the desktop
  viewport, and one next to its right edge.
\<close>

definition example_window :: Window where
  "example_window = \<lparr>innerWidth = 800, innerHeight = 600\<rparr>"

definition example_phone :: Window where
  "example_phone = \<lparr>innerWidth = 320, innerHeight = 568\<rparr>"

definition example_target :: DOMRect where
  "example_target =
     \<lparr>rect_top = 100, rect_bottom = 150, rect_left = 100, rect_right = 200,
      rect_width = 100, rect_height = 50\<rparr>"

definition example_target_edge :: DOMRect where
  "example_target_edge =
     \<lparr>rect_top = 100, rect_bottom = 150, rect_left = 680, rect_right = 780,
      rect_width = 100, rect_height = 50\<rparr>"


section \<open>Properties of the state machine\<close>

lemma isActive_call: "isActive (call g cb w) = isActive w"
  by (simp add: call_def)

lemma currentStep_call: "currentStep (call g cb w) = currentStep w"
  by (simp add: call_def)

lemma browser_call: "browser (call g cb w) = browser w"
  by (simp add: call_def)

lemma calls_call: "calls (call g cb w) = calls w @ (if g then [cb] else [])"
  by (simp add: call_def)

lemmas call_simps = isActive_call currentStep_call browser_call calls_call

lemma totalSteps_meeting: "totalSteps (example_options meetingTourSteps) = 7"
  by (simp add: totalSteps_def example_options_def meetingTourSteps_def)

lemma totalSteps_three: "totalSteps (example_options (take 3 meetingTourSteps)) = 3"
  by (simp add: totalSteps_def example_options_def meetingTourSteps_def)

lemma steps_example: "steps (example_options c) = c"
  by (simp add: example_options_def)

lemma nextStep_rendered:
  "nextStep opts w =
     (if totalSteps opts - 1 \<le> currentStep w then completeTour opts w
      else w\<lparr>currentStep := currentStep w + 1\<rparr>)"
  by (simp add: nextStep_def nextStep_of_render_def)

lemma prevStep_rendered:
  "prevStep opts w = (if 0 < currentStep w then w\<lparr>currentStep := currentStep w - 1\<rparr> else w)"
  by (simp add: prevStep_def prevStep_of_render_def)


lemma tourCalls_rendered_Nil: "tourCalls_rendered opts [] w = w"
  by (simp add: tourCalls_rendered_def)

lemma tourCalls_rendered_Cons:
  "tourCalls_rendered opts (c # cs) w =
     tourCalls_rendered opts cs (tourCall_of_render opts (currentStep w) c w)"
  by (simp add: tourCalls_rendered_def)


subsection \<open>The step index of an active tour\<close>



















subsection \<open>A full tour\<close>

lemma advance_to_completion:
  "currentStep w + real k = totalSteps opts - 1 \<Longrightarrow>
   tourCalls_rendered opts (replicate (Suc k) NextStep) w =
     completeTour opts (w\<lparr>currentStep := totalSteps opts - 1\<rparr>)"
proof (induction k arbitrary: w)
  case 0
  then have e: "totalSteps opts - 1 = currentStep w" by simp
  show ?case
    by (simp add: tourCalls_rendered_Cons tourCalls_rendered_Nil nextStep_of_render_def e)
next
  case (Suc k)
  have "nextStep_of_render opts (currentStep w) w = w\<lparr>currentStep := currentStep w + 1\<rparr>"
    using Suc.prems by (simp add: nextStep_of_render_def)
  moreover have "currentStep (w\<lparr>currentStep := currentStep w + 1\<rparr>) + real k = totalSteps opts - 1"
    using Suc.prems by simp
  ultimately show ?case
    using Suc.IH [of "w\<lparr>currentStep := currentStep w + 1\<rparr>"]
    by (simp add: tourCalls_rendered_Cons)
qed

text \<open>
  C2, as stated, fails where the calls share a render: on three steps, \<open>startTour\<close> and
  three calls of \<open>nextStep\<close> made by one event on the never-started hook all read the
  rendered step 0, so the tour ends active at index 3 with no \<open>onComplete\<close> and nothing
  stored. And where the host passed no \<open>onComplete\<close>, the tour completes and nothing is
  called.
\<close>

theorem full_tour_counterexample:
  "(let w' = tourEvents (example_options (take 3 meetingTourSteps))
               [[StartTour, NextStep, NextStep, NextStep]] (useTour_initial example_browser)
    in isActive w' \<and> currentStep w' = 3 \<and> calls w' = [OnStart] \<and>
       items (browser w') TOUR_COMPLETED_KEY = None) \<and>
   (let w' = tourCalls_rendered (example_options_bare (take 3 meetingTourSteps))
               [StartTour, NextStep, NextStep, NextStep] (useTour_initial example_browser)
    in \<not> isActive w' \<and> count_list (calls w') OnComplete = 0)"
proof -
  have t: "totalSteps (example_options_bare (take 3 meetingTourSteps)) = 3"
    by (simp add: totalSteps_def example_options_bare_def meetingTourSteps_def)
  have o: "onStart (example_options (take 3 meetingTourSteps))"
    by (simp add: example_options_def)
  have a: "let w' = tourEvents (example_options (take 3 meetingTourSteps))
               [[StartTour, NextStep, NextStep, NextStep]] (useTour_initial example_browser)
    in isActive w' \<and> currentStep w' = 3 \<and> calls w' = [OnStart] \<and>
       items (browser w') TOUR_COMPLETED_KEY = None"
    by (simp add: Let_def useTour_initial_def startTour_def nextStep_of_render_def call_simps
          totalSteps_three o example_browser_def)
  have n: "\<not> onStart (example_options_bare (take 3 meetingTourSteps))"
    "\<not> onComplete (example_options_bare (take 3 meetingTourSteps))"
    by (simp_all add: example_options_bare_def)
  have b: "let w' = tourCalls_rendered (example_options_bare (take 3 meetingTourSteps))
               [StartTour, NextStep, NextStep, NextStep] (useTour_initial example_browser)
    in \<not> isActive w' \<and> count_list (calls w') OnComplete = 0"
    by (simp add: Let_def tourCalls_rendered_def useTour_initial_def startTour_def
          nextStep_of_render_def completeTour_def call_simps t n)
  show ?thesis
    using a b by blast
qed

text \<open>
  C2, amended: for a catalog of \<open>n \<ge> 1\<close> steps, \<open>startTour\<close> followed by exactly \<open>n\<close>
  calls of \<open>nextStep\<close>, with a render between every two calls, from any state (the fresh
  one included), ends inactive with \<open>currentStep\<close> 0. The callbacks called on the way
  are \<open>onStart\<close> and then \<open>onComplete\<close>, once each and nothing else, where the host passed
  them: a passed \<open>onComplete\<close> is called exactly once.
\<close>

theorem full_tour_completes_once:
  assumes "steps opts \<noteq> []"
  shows "let w' = tourCalls_rendered opts (StartTour # replicate (length (steps opts)) NextStep) w
         in \<not> isActive w' \<and> currentStep w' = 0 \<and>
            calls w' = calls w @ (if onStart opts then [OnStart] else [])
                               @ (if onComplete opts then [OnComplete] else []) \<and>
            count_list (calls w') OnComplete =
              count_list (calls w) OnComplete + (if onComplete opts then 1 else 0)"
proof -
  obtain k where k: "length (steps opts) = Suc k"
    using assms by (cases "steps opts") auto
  have "currentStep (startTour opts w) + real k = totalSteps opts - 1"
    by (simp add: startTour_def call_simps totalSteps_def k)
  then have "tourCalls_rendered opts (replicate (Suc k) NextStep) (startTour opts w) =
      completeTour opts ((startTour opts w)\<lparr>currentStep := totalSteps opts - 1\<rparr>)"
    by (rule advance_to_completion)
  then show ?thesis
    by (simp add: k Let_def tourCalls_rendered_Cons completeTour_def startTour_def call_simps)
qed

text \<open>The scenario of the specification: three steps, start, advance, advance, advance.\<close>

theorem full_tour_completes_once_witness:
  "steps (example_options (take 3 meetingTourSteps)) \<noteq> [] \<and>
   length (steps (example_options (take 3 meetingTourSteps))) = 3 \<and>
   onComplete (example_options (take 3 meetingTourSteps)) \<and>
   (let w' = tourCalls_rendered (example_options (take 3 meetingTourSteps))
               [StartTour, NextStep, NextStep, NextStep] (useTour_initial example_browser)
    in \<not> isActive w' \<and> currentStep w' = 0 \<and> calls w' = [OnStart, OnComplete] \<and>
       count_list (calls w') OnComplete = 1)"
proof -
  have n: "steps (example_options (take 3 meetingTourSteps)) \<noteq> []"
    by (simp add: steps_example meetingTourSteps_def)
  have l: "length (steps (example_options (take 3 meetingTourSteps))) = Suc (Suc (Suc 0))"
    by (simp add: steps_example meetingTourSteps_def)
  have o: "onStart (example_options (take 3 meetingTourSteps))"
    "onComplete (example_options (take 3 meetingTourSteps))"
    by (simp_all add: example_options_def)
  show ?thesis
    using n full_tour_completes_once [OF n, of "useTour_initial example_browser"]
    by (simp add: l o Let_def useTour_initial_def)
qed

subsection \<open>Going back and jumping\<close>

text \<open>
  C8: \<open>prevStep\<close> from an active tour at step 0 changes nothing: the state is the same,
  so \<open>isActive\<close> and \<open>currentStep\<close> are unchanged and no callback is called. From an
  active tour at step \<open>i > 0\<close> it goes to step \<open>i - 1\<close>, still active, and changes
  nothing else.
\<close>

theorem prevStep_retreat:
  "(isActive w \<and> currentStep w = 0 \<longrightarrow> prevStep opts w = w) \<and>
   (isActive w \<and> 0 < currentStep w \<longrightarrow>
      prevStep opts w = w\<lparr>currentStep := currentStep w - 1\<rparr> \<and>
      isActive (prevStep opts w) \<and> currentStep (prevStep opts w) = currentStep w - 1 \<and>
      calls (prevStep opts w) = calls w \<and> browser (prevStep opts w) = browser w)"
  by (simp add: prevStep_rendered)

theorem prevStep_retreat_witness:
  "isActive (example_active 0) \<and> currentStep (example_active 0) = 0 \<and>
   prevStep (example_options meetingTourSteps) (example_active 0) = example_active 0 \<and>
   isActive (example_active 2) \<and> 0 < currentStep (example_active 2) \<and>
   prevStep (example_options meetingTourSteps) (example_active 2) = example_active 1"
  using prevStep_retreat [of "example_active 0" "example_options meetingTourSteps"]
        prevStep_retreat [of "example_active 2" "example_options meetingTourSteps"]
  by (simp add: example_active_def)

text \<open>
  C9: \<open>goToStep k\<close> with \<open>k\<close> outside \<open>[0, totalSteps)\<close> returns the state it was given,
  whatever that state is; the function has no error result.
\<close>

theorem goToStep_out_of_range:
  "k < 0 \<or> totalSteps opts \<le> k \<Longrightarrow> goToStep opts k w = w"
  by (auto simp add: goToStep_def)

theorem goToStep_out_of_range_witness:
  "((7::real) < 0 \<or> totalSteps (example_options meetingTourSteps) \<le> 7) \<and>
   goToStep (example_options meetingTourSteps) 7 (example_active 3) = example_active 3 \<and>
   ((-1::real) < 0 \<or> totalSteps (example_options meetingTourSteps) \<le> -1) \<and>
   goToStep (example_options meetingTourSteps) (-1) (example_active 3) = example_active 3"
  using goToStep_out_of_range [of 7 "example_options meetingTourSteps" "example_active 3"]
        goToStep_out_of_range [of "-1" "example_options meetingTourSteps" "example_active 3"]
  by (simp add: totalSteps_meeting)

text \<open>
  C10: \<open>goToStep\<close> never changes \<open>isActive\<close>. Called on an inactive tour with \<open>k\<close> in
  range, it sets \<open>currentStep\<close> to \<open>k\<close> and the tour stays inactive.
\<close>

theorem goToStep_keeps_isActive:
  "isActive (goToStep opts k w) = isActive w \<and>
   (\<not> isActive w \<and> 0 \<le> k \<and> k < totalSteps opts \<longrightarrow>
      currentStep (goToStep opts k w) = k \<and> \<not> isActive (goToStep opts k w) \<and>
      goToStep opts k w = w\<lparr>currentStep := k\<rparr>)"
  by (simp add: goToStep_def)

theorem goToStep_keeps_isActive_witness:
  "\<not> isActive (useTour_initial example_browser) \<and> (0::real) \<le> 3 \<and>
   3 < totalSteps (example_options meetingTourSteps) \<and>
   currentStep (goToStep (example_options meetingTourSteps) 3 (useTour_initial example_browser)) = 3 \<and>
   \<not> isActive (goToStep (example_options meetingTourSteps) 3 (useTour_initial example_browser))"
  using goToStep_keeps_isActive
    [of "example_options meetingTourSteps" 3 "useTour_initial example_browser"]
  by (simp add: totalSteps_meeting useTour_initial_def)



section \<open>Properties of the persistence\<close>

lemma keys_distinct: "TOUR_COMPLETED_KEY \<noteq> TOUR_VERSION_KEY"
  by (simp add: TOUR_COMPLETED_KEY_def TOUR_VERSION_KEY_def)

lemma markTourCompleted_cases:
  "(has_window b \<and> \<not> set_throws b TOUR_COMPLETED_KEY \<and> \<not> set_throws b TOUR_VERSION_KEY \<longrightarrow>
      markTourCompleted b =
        b\<lparr>items := (items b)(TOUR_COMPLETED_KEY \<mapsto> ''true'',
                              TOUR_VERSION_KEY \<mapsto> CURRENT_TOUR_VERSION)\<rparr>) \<and>
   (has_window b \<and> \<not> set_throws b TOUR_COMPLETED_KEY \<and> set_throws b TOUR_VERSION_KEY \<longrightarrow>
      markTourCompleted b =
        b\<lparr>items := (items b)(TOUR_COMPLETED_KEY \<mapsto> ''true''),
          console := console b @ [''Failed to save tour completion state'']\<rparr>) \<and>
   (has_window b \<and> set_throws b TOUR_COMPLETED_KEY \<longrightarrow>
      markTourCompleted b =
        b\<lparr>console := console b @ [''Failed to save tour completion state'']\<rparr>) \<and>
   (\<not> has_window b \<longrightarrow> markTourCompleted b = b)"
  by (simp add: markTourCompleted_def markTourCompleted_at_def setItem_def console_error_def)

subsection \<open>Skipping and completing\<close>

text \<open>
  C3, as stated, fails in two ways. Where the storage refuses the write, \<open>skipTour\<close> from
  an active tour leaves no \<open>completed\<close> entry: the exception is caught and logged. And
  where the host passed no callbacks, \<open>skipTour\<close> and \<open>nextStep\<close> on the last step call
  neither \<open>onSkip\<close> nor \<open>onComplete\<close>.
\<close>

theorem skip_and_complete_persist_counterexample:
  "isActive (example_active 0\<lparr>browser := example_browser_full\<rparr>) \<and>
   items (browser (skipTour (example_options meetingTourSteps)
                     (example_active 0\<lparr>browser := example_browser_full\<rparr>)))
     TOUR_COMPLETED_KEY = None \<and>
   console (browser (skipTour (example_options meetingTourSteps)
                     (example_active 0\<lparr>browser := example_browser_full\<rparr>)))
     = [''Failed to save tour completion state''] \<and>
   isActive (example_active 6) \<and>
   calls (skipTour (example_options_bare meetingTourSteps) (example_active 6)) = [] \<and>
   calls (nextStep (example_options_bare meetingTourSteps) (example_active 6)) = []"
proof -
  have a: "items (browser (skipTour (example_options meetingTourSteps)
                     (example_active 0\<lparr>browser := example_browser_full\<rparr>)))
     TOUR_COMPLETED_KEY = None \<and>
   console (browser (skipTour (example_options meetingTourSteps)
                     (example_active 0\<lparr>browser := example_browser_full\<rparr>)))
     = [''Failed to save tour completion state'']"
    by (simp add: example_active_def example_browser_full_def example_browser_def skipTour_def
        call_simps markTourCompleted_def markTourCompleted_at_def setItem_def console_error_def)
  have t: "totalSteps (example_options_bare meetingTourSteps) = 7"
    by (simp add: totalSteps_def example_options_bare_def meetingTourSteps_def)
  have n: "\<not> onSkip (example_options_bare meetingTourSteps)"
    "\<not> onComplete (example_options_bare meetingTourSteps)"
    by (simp_all add: example_options_bare_def)
  have b: "calls (skipTour (example_options_bare meetingTourSteps) (example_active 6)) = [] \<and>
   calls (nextStep (example_options_bare meetingTourSteps) (example_active 6)) = []"
    by (simp add: skipTour_def nextStep_rendered completeTour_def call_simps t n
          example_active_def)
  show ?thesis
    using a b by (simp add: example_active_def)
qed

text \<open>
  C3, amended: from any state (the active ones included), \<open>skipTour\<close>, and \<open>nextStep\<close> on
  the last step, both end inactive at step 0 and leave the browser as \<open>markTourCompleted\<close>
  leaves it. \<open>skipTour\<close> calls \<open>onSkip\<close> once and nothing else where the host passed it,
  and nothing where it did not; \<open>nextStep\<close> on the last step does the same with
  \<open>onComplete\<close>. The browser afterwards:
  \<^item> where \<open>window\<close> is defined and \<open>setItem\<close> raises for neither key, \<open>completed\<close> is
    \<open>'true'\<close> and \<open>version\<close> is \<open>CURRENT_TOUR_VERSION\<close>, and nothing else has changed;
  \<^item> where only the write of the version raises, \<open>completed\<close> is \<open>'true'\<close>, the version is
    as it was, and \<open>'Failed to save tour completion state'\<close> is logged;
  \<^item> where the write of \<open>completed\<close> raises, nothing is stored and the same line is
    logged;
  \<^item> where \<open>window\<close> is undefined, nothing is stored and nothing is logged.
\<close>

theorem skip_and_complete_persist:
  "(let w' = skipTour opts w
    in \<not> isActive w' \<and> currentStep w' = 0 \<and>
       calls w' = calls w @ (if onSkip opts then [OnSkip] else []) \<and>
       browser w' = markTourCompleted (browser w)) \<and>
   (totalSteps opts - 1 \<le> currentStep w \<longrightarrow>
     (let w' = nextStep opts w
      in \<not> isActive w' \<and> currentStep w' = 0 \<and>
         calls w' = calls w @ (if onComplete opts then [OnComplete] else []) \<and>
         browser w' = markTourCompleted (browser w))) \<and>
   (let b = browser w; b' = markTourCompleted (browser w)
    in (has_window b \<and> \<not> set_throws b TOUR_COMPLETED_KEY \<and>
        \<not> set_throws b TOUR_VERSION_KEY \<longrightarrow>
          items b' TOUR_COMPLETED_KEY = Some ''true'' \<and>
          items b' TOUR_VERSION_KEY = Some CURRENT_TOUR_VERSION \<and>
          b' = b\<lparr>items := (items b)(TOUR_COMPLETED_KEY \<mapsto> ''true'',
                                   TOUR_VERSION_KEY \<mapsto> CURRENT_TOUR_VERSION)\<rparr>) \<and>
       (has_window b \<and> \<not> set_throws b TOUR_COMPLETED_KEY \<and>
        set_throws b TOUR_VERSION_KEY \<longrightarrow>
          b' = b\<lparr>items := (items b)(TOUR_COMPLETED_KEY \<mapsto> ''true''),
                 console := console b @ [''Failed to save tour completion state'']\<rparr>) \<and>
       (has_window b \<and> set_throws b TOUR_COMPLETED_KEY \<longrightarrow>
          b' = b\<lparr>console := console b @ [''Failed to save tour completion state'']\<rparr>) \<and>
       (\<not> has_window b \<longrightarrow> b' = b))"
proof -
  have s: "let w' = skipTour opts w
    in \<not> isActive w' \<and> currentStep w' = 0 \<and>
       calls w' = calls w @ (if onSkip opts then [OnSkip] else []) \<and>
       browser w' = markTourCompleted (browser w)"
    by (simp add: Let_def skipTour_def call_simps)
  have c: "let w' = nextStep opts w
      in \<not> isActive w' \<and> currentStep w' = 0 \<and>
         calls w' = calls w @ (if onComplete opts then [OnComplete] else []) \<and>
         browser w' = markTourCompleted (browser w)"
    if "totalSteps opts - 1 \<le> currentStep w"
    using that by (simp add: Let_def nextStep_rendered completeTour_def call_simps)
  have m: "let b = browser w; b' = markTourCompleted (browser w)
    in (has_window b \<and> \<not> set_throws b TOUR_COMPLETED_KEY \<and>
        \<not> set_throws b TOUR_VERSION_KEY \<longrightarrow>
          items b' TOUR_COMPLETED_KEY = Some ''true'' \<and>
          items b' TOUR_VERSION_KEY = Some CURRENT_TOUR_VERSION \<and>
          b' = b\<lparr>items := (items b)(TOUR_COMPLETED_KEY \<mapsto> ''true'',
                                   TOUR_VERSION_KEY \<mapsto> CURRENT_TOUR_VERSION)\<rparr>) \<and>
       (has_window b \<and> \<not> set_throws b TOUR_COMPLETED_KEY \<and>
        set_throws b TOUR_VERSION_KEY \<longrightarrow>
          b' = b\<lparr>items := (items b)(TOUR_COMPLETED_KEY \<mapsto> ''true''),
                 console := console b @ [''Failed to save tour completion state'']\<rparr>) \<and>
       (has_window b \<and> set_throws b TOUR_COMPLETED_KEY \<longrightarrow>
          b' = b\<lparr>console := console b @ [''Failed to save tour completion state'']\<rparr>) \<and>
       (\<not> has_window b \<longrightarrow> b' = b)"
    using markTourCompleted_cases [of "browser w"]
    by (auto simp add: Let_def keys_distinct)
  show ?thesis
    using s c m by blast
qed

theorem skip_and_complete_persist_witness:
  "has_window example_browser \<and> \<not> set_throws example_browser TOUR_COMPLETED_KEY \<and>
   \<not> set_throws example_browser TOUR_VERSION_KEY \<and>
   totalSteps (example_options meetingTourSteps) - 1 \<le> currentStep (example_active 6) \<and>
   calls (skipTour (example_options meetingTourSteps) (example_active 6)) = [OnSkip] \<and>
   browser (skipTour (example_options meetingTourSteps) (example_active 6)) =
     example_record ''1.0.0'' \<and>
   calls (nextStep (example_options meetingTourSteps) (example_active 6)) = [OnComplete] \<and>
   browser (nextStep (example_options meetingTourSteps) (example_active 6)) =
     example_record ''1.0.0'' \<and>
   has_window example_browser_half \<and> \<not> set_throws example_browser_half TOUR_COMPLETED_KEY \<and>
   set_throws example_browser_half TOUR_VERSION_KEY \<and>
   browser (skipTour (example_options meetingTourSteps)
              (example_active 6\<lparr>browser := example_browser_half\<rparr>)) =
     example_browser_half\<lparr>items := [TOUR_COMPLETED_KEY \<mapsto> ''true''],
       console := [''Failed to save tour completion state'']\<rparr> \<and>
   has_window example_browser_full \<and> set_throws example_browser_full TOUR_COMPLETED_KEY \<and>
   browser (skipTour (example_options meetingTourSteps)
              (example_active 6\<lparr>browser := example_browser_full\<rparr>)) =
     example_browser_full\<lparr>console := [''Failed to save tour completion state'']\<rparr> \<and>
   \<not> has_window example_server \<and>
   browser (skipTour (example_options meetingTourSteps)
              (example_active 6\<lparr>browser := example_server\<rparr>)) = example_server"
proof -
  let ?o = "example_options meetingTourSteps"
  have ok: "has_window example_browser" "\<not> set_throws example_browser TOUR_COMPLETED_KEY"
    "\<not> set_throws example_browser TOUR_VERSION_KEY"
    "items example_browser = Map.empty" "console example_browser = []"
    by (simp_all add: example_browser_def)
  have half: "has_window example_browser_half"
    "\<not> set_throws example_browser_half TOUR_COMPLETED_KEY"
    "set_throws example_browser_half TOUR_VERSION_KEY"
    "items example_browser_half = Map.empty" "console example_browser_half = []"
    by (simp_all add: example_browser_half_def example_browser_def keys_distinct)
  have full: "has_window example_browser_full" "set_throws example_browser_full TOUR_COMPLETED_KEY"
    "console example_browser_full = []"
    by (simp_all add: example_browser_full_def example_browser_def)
  have server: "\<not> has_window example_server"
    by (simp add: example_server_def)
  have c: "totalSteps ?o - 1 \<le> currentStep (example_active 6)"
    by (simp add: totalSteps_meeting example_active_def)
  have o: "onSkip ?o" "onComplete ?o"
    by (simp_all add: example_options_def)
  have e: "calls (example_active 6) = []" "browser (example_active 6) = example_browser"
    by (simp_all add: example_active_def)
  have r: "example_browser\<lparr>items := [TOUR_COMPLETED_KEY \<mapsto> ''true'',
      TOUR_VERSION_KEY \<mapsto> CURRENT_TOUR_VERSION]\<rparr> = example_record ''1.0.0''"
    by (simp add: example_record_def CURRENT_TOUR_VERSION_def)
  have 1: "calls (skipTour ?o (example_active 6)) = [OnSkip] \<and>
      browser (skipTour ?o (example_active 6)) = example_record ''1.0.0'' \<and>
      calls (nextStep ?o (example_active 6)) = [OnComplete] \<and>
      browser (nextStep ?o (example_active 6)) = example_record ''1.0.0''"
    using ok c skip_and_complete_persist [of ?o "example_active 6"]
    by (simp add: Let_def o e r)
  have 2: "browser (skipTour ?o (example_active 6\<lparr>browser := example_browser_half\<rparr>)) =
     example_browser_half\<lparr>items := [TOUR_COMPLETED_KEY \<mapsto> ''true''],
       console := [''Failed to save tour completion state'']\<rparr>"
    using half skip_and_complete_persist [of ?o "example_active 6\<lparr>browser := example_browser_half\<rparr>"]
    by (simp add: Let_def)
  have 3: "browser (skipTour ?o (example_active 6\<lparr>browser := example_browser_full\<rparr>)) =
     example_browser_full\<lparr>console := [''Failed to save tour completion state'']\<rparr>"
    using full skip_and_complete_persist [of ?o "example_active 6\<lparr>browser := example_browser_full\<rparr>"]
    by (simp add: Let_def)
  have 4: "browser (skipTour ?o (example_active 6\<lparr>browser := example_server\<rparr>)) = example_server"
    using server skip_and_complete_persist [of ?o "example_active 6\<lparr>browser := example_server\<rparr>"]
    by (simp add: Let_def)
  show ?thesis
    using ok(1-3) half(1-3) full(1-2) server c 1 2 3 4 by blast
qed


subsection \<open>Whether to show the tour\<close>

text \<open>
  C4, as stated, fails on the server: nothing is recorded as completed and the stored
  version is not the current one, and \<open>shouldShowTour\<close> returns false.
\<close>

theorem shouldShowTour_counterexample:
  "items example_server TOUR_COMPLETED_KEY = None \<and>
   \<not> shouldShowTour example_server \<and>
   shouldShowTour example_server \<noteq>
     (\<not> isTourCompleted example_server \<or>
      getTourVersion example_server \<noteq> Some CURRENT_TOUR_VERSION)"
  by (simp add: example_server_def example_browser_def shouldShowTour_def shouldShowTour_at_def
        isTourCompleted_def getTourVersion_def)

text \<open>
  C4, amended: where \<open>window\<close> is defined, \<open>shouldShowTour\<close> returns true if and only if
  \<open>isTourCompleted\<close> is false or the stored version differs from the current version
  \<open>cv\<close>: true when no completion is recorded; for a readable record
  \<open>{completed: 'true', version: v}\<close> false when \<open>v = cv\<close> and true when \<open>v \<noteq> cv\<close>.
  Where \<open>window\<close> is undefined it returns false.
\<close>

theorem shouldShowTour_iff:
  "shouldShowTour = shouldShowTour_at CURRENT_TOUR_VERSION \<and>
   (\<not> has_window b \<longrightarrow> \<not> shouldShowTour_at cv b) \<and>
   (has_window b \<longrightarrow>
      shouldShowTour_at cv b = (\<not> isTourCompleted b \<or> getTourVersion b \<noteq> Some cv) \<and>
      (items b TOUR_COMPLETED_KEY = None \<longrightarrow> shouldShowTour_at cv b) \<and>
      (\<not> get_throws b TOUR_COMPLETED_KEY \<and> \<not> get_throws b TOUR_VERSION_KEY \<and>
       items b TOUR_COMPLETED_KEY = Some ''true'' \<and> items b TOUR_VERSION_KEY = Some v \<longrightarrow>
         shouldShowTour_at cv b = (v \<noteq> cv)))"
  by (auto simp add: shouldShowTour_def shouldShowTour_at_def isTourCompleted_def
        getTourVersion_def getItem_def)

theorem shouldShowTour_iff_witness:
  "has_window example_browser \<and> items example_browser TOUR_COMPLETED_KEY = None \<and>
   shouldShowTour_at ''1.0.0'' example_browser \<and>
   has_window (example_record ''1.0.0'') \<and>
   \<not> get_throws (example_record ''1.0.0'') TOUR_COMPLETED_KEY \<and>
   \<not> get_throws (example_record ''1.0.0'') TOUR_VERSION_KEY \<and>
   items (example_record ''1.0.0'') TOUR_COMPLETED_KEY = Some ''true'' \<and>
   items (example_record ''1.0.0'') TOUR_VERSION_KEY = Some ''1.0.0'' \<and>
   \<not> shouldShowTour_at ''1.0.0'' (example_record ''1.0.0'') \<and>
   shouldShowTour_at ''1.1.0'' (example_record ''1.0.0'') \<and>
   \<not> has_window example_server \<and> \<not> shouldShowTour_at ''1.0.0'' example_server"
proof -
  have r: "has_window (example_record ''1.0.0'')"
    "\<not> get_throws (example_record ''1.0.0'') TOUR_COMPLETED_KEY"
    "\<not> get_throws (example_record ''1.0.0'') TOUR_VERSION_KEY"
    "items (example_record ''1.0.0'') TOUR_COMPLETED_KEY = Some ''true''"
    "items (example_record ''1.0.0'') TOUR_VERSION_KEY = Some ''1.0.0''"
    by (simp_all add: example_record_def example_browser_def keys_distinct)
  have e: "has_window example_browser" "items example_browser TOUR_COMPLETED_KEY = None"
    by (simp_all add: example_browser_def)
  have s: "\<not> has_window example_server"
    by (simp add: example_server_def)
  have 1: "shouldShowTour_at ''1.0.0'' example_browser"
    using e shouldShowTour_iff [of example_browser "''1.0.0''" "''1.0.0''"] by blast
  have 2: "shouldShowTour_at ''1.0.0'' (example_record ''1.0.0'') = (''1.0.0'' \<noteq> ''1.0.0'')"
    using r shouldShowTour_iff [of "example_record ''1.0.0''" "''1.0.0''" "''1.0.0''"] by blast
  have 3: "shouldShowTour_at ''1.1.0'' (example_record ''1.0.0'') = (''1.0.0'' \<noteq> ''1.1.0'')"
    using r shouldShowTour_iff [of "example_record ''1.0.0''" "''1.1.0''" "''1.0.0''"] by blast
  have 4: "\<not> shouldShowTour_at ''1.0.0'' example_server"
    using s shouldShowTour_iff [of example_server "''1.0.0''" "''1.0.0''"] by blast
  show ?thesis
    using r e s 1 2 3 4 by simp
qed

subsection \<open>Reading the completion flag\<close>

text \<open>
  C5, as stated, fails where the storage backend is unavailable because \<open>window\<close> is
  undefined: \<open>isTourCompleted\<close> returns true there, with nothing recorded.
\<close>

theorem isTourCompleted_counterexample:
  "\<not> has_window example_server \<and> items example_server TOUR_COMPLETED_KEY = None \<and>
   isTourCompleted example_server"
  by (simp add: example_server_def example_browser_def isTourCompleted_def)

text \<open>
  C5, amended: where \<open>window\<close> is defined, \<open>isTourCompleted\<close> returns false whenever the
  read raises, whatever is stored, and otherwise returns true exactly when the stored
  flag is \<open>'true'\<close>. Where \<open>window\<close> is undefined it returns true.
\<close>

theorem isTourCompleted_fail_safe:
  "(has_window b \<and> get_throws b TOUR_COMPLETED_KEY \<longrightarrow> \<not> isTourCompleted b) \<and>
   (has_window b \<and> \<not> get_throws b TOUR_COMPLETED_KEY \<longrightarrow>
      isTourCompleted b = (items b TOUR_COMPLETED_KEY = Some ''true'')) \<and>
   (\<not> has_window b \<longrightarrow> isTourCompleted b)"
  by (simp add: isTourCompleted_def getItem_def)

theorem isTourCompleted_fail_safe_witness:
  "has_window example_browser_denied \<and> get_throws example_browser_denied TOUR_COMPLETED_KEY \<and>
   items example_browser_denied TOUR_COMPLETED_KEY = Some ''true'' \<and>
   \<not> isTourCompleted example_browser_denied \<and>
   has_window (example_record ''1.0.0'') \<and>
   \<not> get_throws (example_record ''1.0.0'') TOUR_COMPLETED_KEY \<and>
   isTourCompleted (example_record ''1.0.0'') \<and>
   \<not> has_window example_server \<and> isTourCompleted example_server"
proof -
  have d: "has_window example_browser_denied"
    "get_throws example_browser_denied TOUR_COMPLETED_KEY"
    "items example_browser_denied TOUR_COMPLETED_KEY = Some ''true''"
    by (simp_all add: example_browser_denied_def example_record_def example_browser_def
          keys_distinct)
  have r: "has_window (example_record ''1.0.0'')"
    "\<not> get_throws (example_record ''1.0.0'') TOUR_COMPLETED_KEY"
    "items (example_record ''1.0.0'') TOUR_COMPLETED_KEY = Some ''true''"
    by (simp_all add: example_record_def example_browser_def keys_distinct)
  have s: "\<not> has_window example_server"
    by (simp add: example_server_def)
  show ?thesis
    using d r s isTourCompleted_fail_safe [of example_browser_denied]
      isTourCompleted_fail_safe [of "example_record ''1.0.0''"]
      isTourCompleted_fail_safe [of example_server]
    by simp
qed


section \<open>Properties of the geometry\<close>

subsection \<open>Spotlight cutout\<close>

lemma cutout_radius_le:
  "rr_radius (spec_cutout box p cr) \<le> cr \<and>
   2 * rr_radius (spec_cutout box p cr) \<le> rr_right (spec_cutout box p cr) - rr_left (spec_cutout box p cr) \<and>
   2 * rr_radius (spec_cutout box p cr) \<le> rr_bottom (spec_cutout box p cr) - rr_top (spec_cutout box p cr)"
  by (simp add: spec_cutout_def Let_def min_def)

lemma pathBounds_roundedRect:
  assumes "0 \<le> rr_radius c" "2 * rr_radius c \<le> rr_right c - rr_left c"
    "2 * rr_radius c \<le> rr_bottom c - rr_top c"
  shows "pathBounds (spec_roundedRectPath c) = (rr_left c, rr_top c, rr_right c, rr_bottom c)"
  using assms
  by (simp add: pathBounds_def pathPoints_def spec_roundedRectPath_def Let_def min_def max_def)

text \<open>
  C6: for every target box, padding and corner radius, the path of
  \<open>calculateSpotlightPath\<close> is the rectangle of the viewport followed by the outline of
  the specification's rounded rectangle: the target box expanded by the padding on all
  sides, with the radius the least of the corner radius, half the expanded width and half
  the expanded height. Where that radius is not negative, the points of the cutout's
  sub-path span exactly the expanded box.
\<close>

theorem spotlight_cutout:
  "calculateSpotlightPath win box padding cornerRadius =
     spec_viewportPath win @ spec_roundedRectPath (spec_cutout box padding cornerRadius) \<and>
   spec_cutout box padding cornerRadius =
     \<lparr>rr_left = rect_left box - padding, rr_top = rect_top box - padding,
      rr_right = rect_right box + padding, rr_bottom = rect_bottom box + padding,
      rr_radius = Min {cornerRadius,
                       ((rect_right box + padding) - (rect_left box - padding)) / 2,
                       ((rect_bottom box + padding) - (rect_top box - padding)) / 2}\<rparr> \<and>
   (0 \<le> rr_radius (spec_cutout box padding cornerRadius) \<longrightarrow>
      pathBounds (drop 5 (calculateSpotlightPath win box padding cornerRadius)) =
        (rect_left box - padding, rect_top box - padding,
         rect_right box + padding, rect_bottom box + padding))"
proof -
  let ?c = "spec_cutout box padding cornerRadius"
  have p: "calculateSpotlightPath win box padding cornerRadius =
      spec_viewportPath win @ spec_roundedRectPath ?c"
    by (simp add: calculateSpotlightPath_def spec_viewportPath_def spec_roundedRectPath_def
          spec_cutout_def Let_def)
  have c: "?c = \<lparr>rr_left = rect_left box - padding, rr_top = rect_top box - padding,
      rr_right = rect_right box + padding, rr_bottom = rect_bottom box + padding,
      rr_radius = Min {cornerRadius,
                       ((rect_right box + padding) - (rect_left box - padding)) / 2,
                       ((rect_bottom box + padding) - (rect_top box - padding)) / 2}\<rparr>"
    by (simp add: spec_cutout_def Let_def)
  have d: "drop 5 (calculateSpotlightPath win box padding cornerRadius) = spec_roundedRectPath ?c"
    by (simp add: p spec_viewportPath_def)
  have b: "pathBounds (spec_roundedRectPath ?c) =
      (rect_left box - padding, rect_top box - padding,
       rect_right box + padding, rect_bottom box + padding)" if "0 \<le> rr_radius ?c"
  proof -
    have "pathBounds (spec_roundedRectPath ?c) = (rr_left ?c, rr_top ?c, rr_right ?c, rr_bottom ?c)"
      using that cutout_radius_le [of box padding cornerRadius]
      by (intro pathBounds_roundedRect) simp_all
    then show ?thesis by (simp add: spec_cutout_def Let_def)
  qed
  show ?thesis
    using p c b d by simp
qed

text \<open>
  The example of the specification: box \<open>{left: 100, top: 100, right: 200, bottom: 150}\<close>,
  padding 8, radius 8, viewport 800 by 600.
\<close>

theorem spotlight_cutout_witness:
  "spec_cutout example_target 8 8 =
     \<lparr>rr_left = 92, rr_top = 92, rr_right = 208, rr_bottom = 158, rr_radius = 8\<rparr> \<and>
   Min {8, (208 - 92) / 2, (158 - 92) / 2} = (8::real) \<and>
   (208 - 92) / 2 = (58::real) \<and> (158 - 92) / 2 = (33::real) \<and>
   0 \<le> rr_radius (spec_cutout example_target 8 8) \<and>
   pathBounds (drop 5 (calculateSpotlightPath example_window example_target 8 8)) =
     (92, 92, 208, 158) \<and>
   calculateSpotlightPath example_window example_target 8 8 =
     [SvgM 0 0, SvgL 800 0, SvgL 800 600, SvgL 0 600, SvgZ,
      SvgM 100 92, SvgL 200 92, SvgQ 208 92 208 100, SvgL 208 150, SvgQ 208 158 200 158,
      SvgL 100 158, SvgQ 92 158 92 150, SvgL 92 100, SvgQ 92 92 100 92, SvgZ]"
proof -
  have r: "0 \<le> rr_radius (spec_cutout example_target 8 8)"
    by (simp add: spec_cutout_def example_target_def Let_def)
  have t: "rect_left example_target = 100" "rect_top example_target = 100"
    "rect_right example_target = 200" "rect_bottom example_target = 150"
    by (simp_all add: example_target_def)
  have v: "innerWidth example_window = 800" "innerHeight example_window = 600"
    by (simp_all add: example_window_def)
  note T = spotlight_cutout [of example_window example_target 8 8]
  have c: "spec_cutout example_target 8 8 =
      \<lparr>rr_left = 92, rr_top = 92, rr_right = 208, rr_bottom = 158, rr_radius = 8\<rparr>"
    using T [THEN conjunct2, THEN conjunct1] by (simp add: t)
  have b: "pathBounds (drop 5 (calculateSpotlightPath example_window example_target 8 8)) =
      (92, 92, 208, 158)"
    using T [THEN conjunct2, THEN conjunct2, rule_format, OF r] by (simp add: t)
  have p: "calculateSpotlightPath example_window example_target 8 8 =
     [SvgM 0 0, SvgL 800 0, SvgL 800 600, SvgL 0 600, SvgZ,
      SvgM 100 92, SvgL 200 92, SvgQ 208 92 208 100, SvgL 208 150, SvgQ 208 158 200 158,
      SvgL 100 158, SvgQ 92 158 92 150, SvgL 92 100, SvgQ 92 92 100 92, SvgZ]"
    using T [THEN conjunct1] by (simp add: c v spec_viewportPath_def spec_roundedRectPath_def)
  show ?thesis
    using c b p by simp
qed


subsection \<open>Tooltip position\<close>

lemma getTooltipPosition_directional:
  "placement \<noteq> Center \<Longrightarrow>
   getTooltipPosition win (Some rect) placement sz =
     \<lparr>pos_top = max 16 (min (pos_top (unclampedPosition rect placement sz))
                           (innerHeight win - size_height sz - 16)),
      pos_left = max 16 (min (pos_left (unclampedPosition rect placement sz))
                            (innerWidth win - size_width sz - 16))\<rparr>"
  by (simp add: getTooltipPosition_def Let_def)

lemma unclampedPosition_gap:
  "(placement \<in> {Bottom, Bottom_start, Bottom_end} \<longrightarrow>
      pos_top (unclampedPosition rect placement sz) = rect_bottom rect + 16) \<and>
   (placement \<in> {Top, Top_start, Top_end} \<longrightarrow>
      pos_top (unclampedPosition rect placement sz) + size_height sz = rect_top rect - 16) \<and>
   (placement = Left \<longrightarrow>
      pos_left (unclampedPosition rect placement sz) + size_width sz = rect_left rect - 16) \<and>
   (placement = Right \<longrightarrow>
      pos_left (unclampedPosition rect placement sz) = rect_right rect + 16)"
  by (cases placement) (simp_all add: unclampedPosition_def GAP_def Let_def)

lemma clamp_lower: "(16::real) \<le> max 16 (min x (W - w - 16))"
  by simp

lemma clamp_upper: "w + 32 \<le> W \<Longrightarrow> max 16 (min x (W - w - 16)) + w \<le> W - (16::real)"
  by (simp add: max_def min_def)

lemma clamp_id: "16 \<le> x \<Longrightarrow> x + w \<le> W - 16 \<Longrightarrow> max 16 (min x (W - w - 16)) = (x::real)"
  by (simp add: max_def min_def)

lemma clamp_too_big: "W < w + 32 \<Longrightarrow> max 16 (min x (W - w - 16)) = (16::real)"
  by (simp add: max_def min_def)

text \<open>
  C7, as stated, fails where the tooltip does not fit: on a viewport 320 wide the
  tooltip of the initial size, 320 by 200, placed \<open>right\<close> of a target, is anchored at
  left 16 and reaches beyond the viewport minus the inset.
\<close>

theorem tooltip_clamped_counterexample:
  "Right \<noteq> Center \<and>
   getTooltipPosition example_phone (Some example_target) Right tooltipSize_initial =
     \<lparr>pos_top = 25, pos_left = 16\<rparr> \<and>
   \<not> (16 + size_width tooltipSize_initial \<le> innerWidth example_phone - 16) \<and>
   \<not> insideInset example_phone tooltipSize_initial
       (getTooltipPosition example_phone (Some example_target) Right tooltipSize_initial)"
  by (simp add: getTooltipPosition_def unclampedPosition_def insideInset_def Let_def GAP_def
        example_phone_def example_target_def tooltipSize_initial_def TOOLTIP_WIDTH_def)

text \<open>
  C7, amended: for every directional placement (every placement but \<open>center\<close>, with a
  target), the anchor is first offset from the relevant target edge by the gap of 16
  units, and then clamped on each axis to between 16 and the viewport's extent minus the
  tooltip's extent minus 16, the lower bound winning. So the anchor is always at least
  16 from the left and the top. On an axis where the tooltip and both insets fit in the
  viewport, the tooltip ends at least 16 before the viewport's far edge; where they fit on
  both axes, the tooltip's rectangle lies in the viewport minus the inset of 16 on all
  sides, and the anchor is the aligned one exactly when that one already lies there. On
  an axis where they do not fit, the anchor is 16.
\<close>

theorem tooltip_clamped:
  assumes "placement \<noteq> Center"
  shows "let c = unclampedPosition rect placement sz;
             p = getTooltipPosition win (Some rect) placement sz
         in ((placement \<in> {Bottom, Bottom_start, Bottom_end} \<longrightarrow>
                pos_top c = rect_bottom rect + 16) \<and>
             (placement \<in> {Top, Top_start, Top_end} \<longrightarrow>
                pos_top c + size_height sz = rect_top rect - 16) \<and>
             (placement = Left \<longrightarrow> pos_left c + size_width sz = rect_left rect - 16) \<and>
             (placement = Right \<longrightarrow> pos_left c = rect_right rect + 16)) \<and>
            pos_left p = max 16 (min (pos_left c) (innerWidth win - size_width sz - 16)) \<and>
            pos_top p = max 16 (min (pos_top c) (innerHeight win - size_height sz - 16)) \<and>
            16 \<le> pos_left p \<and> 16 \<le> pos_top p \<and>
            (size_width sz + 32 \<le> innerWidth win \<longrightarrow>
               pos_left p + size_width sz \<le> innerWidth win - 16) \<and>
            (size_height sz + 32 \<le> innerHeight win \<longrightarrow>
               pos_top p + size_height sz \<le> innerHeight win - 16) \<and>
            (size_width sz + 32 \<le> innerWidth win \<and> size_height sz + 32 \<le> innerHeight win \<longrightarrow>
               insideInset win sz p \<and> (p = c) = insideInset win sz c) \<and>
            (innerWidth win < size_width sz + 32 \<longrightarrow> pos_left p = 16) \<and>
            (innerHeight win < size_height sz + 32 \<longrightarrow> pos_top p = 16)"
proof -
  let ?c = "unclampedPosition rect placement sz"
  let ?p = "getTooltipPosition win (Some rect) placement sz"
  have l: "pos_left ?p = max 16 (min (pos_left ?c) (innerWidth win - size_width sz - 16))"
    and t: "pos_top ?p = max 16 (min (pos_top ?c) (innerHeight win - size_height sz - 16))"
    using assms by (simp_all add: getTooltipPosition_directional)
  have lo: "16 \<le> pos_left ?p" "16 \<le> pos_top ?p"
    by (simp_all add: l t)
  have up_l: "pos_left ?p + size_width sz \<le> innerWidth win - 16"
    if "size_width sz + 32 \<le> innerWidth win"
    unfolding l using that by (rule clamp_upper)
  have up_t: "pos_top ?p + size_height sz \<le> innerHeight win - 16"
    if "size_height sz + 32 \<le> innerHeight win"
    unfolding t using that by (rule clamp_upper)
  have inside: "insideInset win sz ?p"
    if "size_width sz + 32 \<le> innerWidth win" "size_height sz + 32 \<le> innerHeight win"
    using that lo up_l up_t by (simp add: insideInset_def)
  have keep: "?p = ?c" if "insideInset win sz ?c"
  proof -
    have "pos_left ?p = pos_left ?c" "pos_top ?p = pos_top ?c"
      using that by (simp_all add: l t insideInset_def clamp_id)
    then show ?thesis by simp
  qed
  have iff: "(?p = ?c) = insideInset win sz ?c"
    if "size_width sz + 32 \<le> innerWidth win" "size_height sz + 32 \<le> innerHeight win"
    using inside [OF that] keep by auto
  have big_l: "pos_left ?p = 16" if "innerWidth win < size_width sz + 32"
    unfolding l using that by (rule clamp_too_big)
  have big_t: "pos_top ?p = 16" if "innerHeight win < size_height sz + 32"
    unfolding t using that by (rule clamp_too_big)
  show ?thesis
    unfolding Let_def
    using unclampedPosition_gap [of placement rect sz] l t lo up_l up_t inside iff big_l big_t
    by blast
qed

text \<open>
  The example of the specification: tooltip 320 by 200, placement \<open>right\<close>, target with
  \<open>right = 780\<close>, viewport 800 wide.
\<close>

theorem tooltip_clamped_witness:
  "Right \<noteq> Center \<and>
   size_width tooltipSize_initial + 32 \<le> innerWidth example_window \<and>
   size_height tooltipSize_initial + 32 \<le> innerHeight example_window \<and>
   pos_left (unclampedPosition example_target_edge Right tooltipSize_initial) = 780 + 16 \<and>
   pos_left (getTooltipPosition example_window (Some example_target_edge) Right tooltipSize_initial)
     = 800 - 320 - 16 \<and>
   getTooltipPosition example_window (Some example_target_edge) Right tooltipSize_initial
     = \<lparr>pos_top = 25, pos_left = 464\<rparr> \<and>
   insideInset example_window tooltipSize_initial
     (getTooltipPosition example_window (Some example_target_edge) Right tooltipSize_initial)"
proof -
  have n: "Right \<noteq> Center" by simp
  have f: "size_width tooltipSize_initial + 32 \<le> innerWidth example_window"
    "size_height tooltipSize_initial + 32 \<le> innerHeight example_window"
    by (simp_all add: tooltipSize_initial_def TOOLTIP_WIDTH_def example_window_def)
  note T = tooltip_clamped [OF n, of example_target_edge tooltipSize_initial example_window,
      unfolded Let_def]
  have i: "insideInset example_window tooltipSize_initial
     (getTooltipPosition example_window (Some example_target_edge) Right tooltipSize_initial)"
    using T f by blast
  have c: "pos_left (unclampedPosition example_target_edge Right tooltipSize_initial) = 780 + 16"
    using T by (simp add: example_target_edge_def)
  have v: "getTooltipPosition example_window (Some example_target_edge) Right tooltipSize_initial
     = \<lparr>pos_top = 25, pos_left = 464\<rparr>"
    by (simp add: getTooltipPosition_def unclampedPosition_def Let_def GAP_def
        example_window_def example_target_edge_def tooltipSize_initial_def TOOLTIP_WIDTH_def)
  show ?thesis
    using n f i c v by simp
qed


end
